theory Spec2Isabelle
  imports Main "HOL-Library.Word"
begin

section \<open>Values the package exchanges with the Go libraries\<close>

text \<open>
  The package \<open>saml\<close> consists of two functions, \<open>Verify\<close> and
  \<open>GetEntityIDCertificateAndRedirectURL\<close>, over the document structs that
  \<open>encoding/xml\<close> fills. A Go string is a \<open>string\<close>, a \<open>[]byte\<close> is a list of
  8-bit words, and a pointer that may be \<open>nil\<close> is an \<open>option\<close>.

  A \<open>time.Time\<close> read from an attribute or handed in by the caller is an instant; its
  methods \<open>Before\<close> and \<open>After\<close> compare instants and nothing else. The instant is the
  number of nanoseconds since the zero \<open>Time\<close>, so that \<open>time.Time{}\<close> is \<open>0\<close>.
\<close>

type_synonym byte = "8 word"

type_synonym Time = int

definition Before :: "Time \<Rightarrow> Time \<Rightarrow> bool" where
  "Before t u = (t < u)"

definition After :: "Time \<Rightarrow> Time \<Rightarrow> bool" where
  "After t u = (u < t)"

text \<open>
  A Go \<open>error\<close> is either \<open>nil\<close> (\<open>None\<close>) or an error value. The package declares
  five error values of its own; every other error that leaves the package was made by
  a library (\<open>encoding/base64\<close>, \<open>encoding/xml\<close>, \<open>dsig\<close>, \<open>crypto/x509\<close>,
  \<open>net/url\<close>) and is returned unchanged: \<open>LibraryError e\<close>, for the library's
  value \<open>e\<close>.
\<close>

datatype 'e error =
    ErrResponseNotSigned
  | ErrAssertionExpired
  | ErrInvalidIssuer
  | ErrInvalidRecipient
  | ErrNoRedirectBinding
  | LibraryError 'e

section \<open>The document model\<close>

record xml_Name =
  Space :: string
  Local :: string

text \<open>
  \<open>dsig.Signature\<close> is declared in the package \<open>dsig\<close>. \<open>Verify\<close> reads its field
  \<open>SignatureValue\<close> and calls its method \<open>Verify\<close>; what else it holds is the
  parameter \<open>'si\<close>, whose zero value is \<open>0\<close>.
\<close>

record 'si Signature =
  SignedInfo :: 'si
  SignatureValue :: string

record Issuer =
  XMLName :: xml_Name
  Name :: string

record NameID =
  XMLName :: xml_Name
  Format :: string
  Value :: string

record SubjectConfirmationData =
  XMLName :: xml_Name
  NotOnOrAfter :: Time
  Recipient :: string

record SubjectConfirmation =
  XMLName :: xml_Name
  SubjectConfirmationData :: SubjectConfirmationData

record Subject =
  XMLName :: xml_Name
  NameID :: NameID
  SubjectConfirmation :: SubjectConfirmation

record Conditions =
  XMLName :: xml_Name
  NotBefore :: Time
  NotOnOrAfter :: Time

record Attribute =
  XMLName :: xml_Name
  Name :: string
  NameFormat :: string
  Value :: string

record AttributeStatement =
  XMLName :: xml_Name
  Attributes :: "Attribute list"

record Assertion =
  XMLName :: xml_Name
  Issuer :: Issuer
  Subject :: Subject
  Conditions :: Conditions
  AttributeStatement :: AttributeStatement

record 'si Response =
  XMLName :: xml_Name
  Signature :: "'si Signature"
  Assertion :: Assertion

record X509Certificate =
  XMLName :: xml_Name
  Value :: string

record X509Data =
  XMLName :: xml_Name
  X509Certificate :: X509Certificate

record KeyInfo =
  XMLName :: xml_Name
  X509Data :: X509Data

record KeyDescriptor =
  XMLName :: xml_Name
  KeyInfo :: KeyInfo

record SingleSignOnService =
  XMLName :: xml_Name
  Binding :: string
  Location :: string

record IDPSSODescriptor =
  XMLName :: xml_Name
  KeyDescriptor :: KeyDescriptor
  SingleSignOnServices :: "SingleSignOnService list"

record EntityDescriptor =
  XMLName :: xml_Name
  EntityID :: string
  IDPSSODescriptor :: IDPSSODescriptor

subsection \<open>Zero values\<close>

definition zero_Name :: xml_Name where
  "zero_Name = \<lparr>Space = [], Local = []\<rparr>"

definition zero_Assertion :: Assertion where
  "zero_Assertion =
     \<lparr>Assertion.XMLName = zero_Name,
      Issuer = \<lparr>Issuer.XMLName = zero_Name, Name = []\<rparr>,
      Subject =
        \<lparr>Subject.XMLName = zero_Name,
         NameID = \<lparr>NameID.XMLName = zero_Name, Format = [], Value = []\<rparr>,
         SubjectConfirmation =
           \<lparr>SubjectConfirmation.XMLName = zero_Name,
            SubjectConfirmationData =
              \<lparr>SubjectConfirmationData.XMLName = zero_Name, NotOnOrAfter = 0,
               Recipient = []\<rparr>\<rparr>\<rparr>,
      Conditions = \<lparr>Conditions.XMLName = zero_Name, NotBefore = 0, NotOnOrAfter = 0\<rparr>,
      AttributeStatement = \<lparr>AttributeStatement.XMLName = zero_Name, Attributes = []\<rparr>\<rparr>"

text \<open>\<open>Response{}\<close>, the value every failing path of \<open>Verify\<close> returns.\<close>

definition zero_Response :: "('si::zero) Response" where
  "zero_Response =
     \<lparr>Response.XMLName = zero_Name,
      Signature = \<lparr>SignedInfo = 0, SignatureValue = []\<rparr>,
      Assertion = zero_Assertion\<rparr>"

section \<open>The library functions the package calls\<close>

text \<open>
  Each library function is a parameter and returns what its Go signature returns, a
  value together with an error:
  \<^item> \<open>DecodeString\<close> is \<open>base64.StdEncoding.DecodeString\<close>;
  \<^item> \<open>Unmarshal\<close> is \<open>xml.Unmarshal\<close> into a fresh \<open>Response\<close>;
  \<^item> \<open>Signature_Verify\<close> is the method \<open>Verify\<close> of \<open>dsig.Signature\<close>, applied to the
    signature, the certificate and the bytes its decoder reads;
  \<^item> \<open>ParseCertificate\<close> is \<open>x509.ParseCertificate\<close>;
  \<^item> \<open>url_Parse\<close> is \<open>url.Parse\<close>.
\<close>

record ('si, 'cert, 'url, 'e) library =
  DecodeString :: "string \<Rightarrow> byte list \<times> 'e option"
  Unmarshal :: "byte list \<Rightarrow> 'si Response \<times> 'e option"
  Signature_Verify :: "'si Signature \<Rightarrow> 'cert option \<Rightarrow> byte list \<Rightarrow> 'e option"
  ParseCertificate :: "byte list \<Rightarrow> 'cert option \<times> 'e option"
  url_Parse :: "string \<Rightarrow> 'url option \<times> 'e option"

section \<open>Verify\<close>

text \<open>
  \<open>Verify\<close> returns the pair of Go results and, beside it, the calls it made to
  \<open>Signature_Verify\<close>, each with the signature, the certificate and the bytes under
  the decoder it passed.
\<close>

type_synonym ('si, 'cert) verify_call = "'si Signature \<times> 'cert option \<times> byte list"

definition Verify ::
  "('si::zero, 'cert, 'url, 'e) library \<Rightarrow> string \<Rightarrow> string \<Rightarrow> 'cert option \<Rightarrow> string \<Rightarrow> Time
     \<Rightarrow> ('si Response \<times> 'e error option) \<times> ('si, 'cert) verify_call list" where
  "Verify L samlResponse issuer cert recipient now =
     (case DecodeString L samlResponse of
        (data, Some err) \<Rightarrow> ((zero_Response, Some (LibraryError err)), [])
      | (data, None) \<Rightarrow>
     (case Unmarshal L data of
        (response, Some err) \<Rightarrow> ((zero_Response, Some (LibraryError err)), [])
      | (response, None) \<Rightarrow>
     if SignatureValue (Signature response) = []
     then ((zero_Response, Some ErrResponseNotSigned), [])
     else
       let calls = [(Signature response, cert, data)] in
       (case Signature_Verify L (Signature response) cert data of
          Some err \<Rightarrow> ((zero_Response, Some (LibraryError err)), calls)
        | None \<Rightarrow>
       if Issuer.Name (Issuer (Assertion response)) \<noteq> issuer
       then ((zero_Response, Some ErrInvalidIssuer), calls)
       else if Recipient (SubjectConfirmationData (SubjectConfirmation
                 (Subject (Assertion response)))) \<noteq> recipient
       then ((zero_Response, Some ErrInvalidRecipient), calls)
       else if Before now (NotBefore (Conditions (Assertion response)))
       then ((zero_Response, Some ErrAssertionExpired), calls)
       else if After now (Conditions.NotOnOrAfter (Conditions (Assertion response)))
       then ((zero_Response, Some ErrAssertionExpired), calls)
       else if After now (SubjectConfirmationData.NotOnOrAfter (SubjectConfirmationData
                 (SubjectConfirmation (Subject (Assertion response)))))
       then ((zero_Response, Some ErrAssertionExpired), calls)
       else ((response, None), calls))))"

section \<open>GetEntityIDCertificateAndRedirectURL\<close>

definition SingleSignOnServiceBindingHTTPRedirect :: string where
  "SingleSignOnServiceBindingHTTPRedirect =
     ''urn:oasis:names:tc:SAML:2.0:bindings:HTTP-Redirect''"

text \<open>
  The \<open>for\<close> loop over \<open>SingleSignOnServices\<close> and the \<open>return\<close> after it: the first
  entry with the HTTP-Redirect binding ends the loop with whatever \<open>url.Parse\<close> gave.
\<close>

fun scan_SingleSignOnServices ::
  "('si, 'cert, 'url, 'e) library \<Rightarrow> string \<Rightarrow> 'cert option \<Rightarrow> SingleSignOnService list
     \<Rightarrow> string \<times> 'cert option \<times> 'url option \<times> 'e error option" where
  "scan_SingleSignOnServices L entityID cert [] = ([], None, None, Some ErrNoRedirectBinding)"
| "scan_SingleSignOnServices L entityID cert (s # ss) =
     (if Binding s = SingleSignOnServiceBindingHTTPRedirect
      then (case url_Parse L (Location s) of
              (location, err) \<Rightarrow> (entityID, cert, location, map_option LibraryError err))
      else scan_SingleSignOnServices L entityID cert ss)"

definition GetEntityIDCertificateAndRedirectURL ::
  "('si, 'cert, 'url, 'e) library \<Rightarrow> EntityDescriptor
     \<Rightarrow> string \<times> 'cert option \<times> 'url option \<times> 'e error option" where
  "GetEntityIDCertificateAndRedirectURL L d =
     (case DecodeString L (X509Certificate.Value (X509Certificate (X509Data (KeyInfo
              (KeyDescriptor (IDPSSODescriptor d)))))) of
        (asn1Data, Some err) \<Rightarrow> ([], None, None, Some (LibraryError err))
      | (asn1Data, None) \<Rightarrow>
     (case ParseCertificate L asn1Data of
        (cert, Some err) \<Rightarrow> ([], None, None, Some (LibraryError err))
      | (cert, None) \<Rightarrow>
          scan_SingleSignOnServices L (EntityID d) cert
            (SingleSignOnServices (IDPSSODescriptor d))))"

abbreviation embedded_certificate :: "EntityDescriptor \<Rightarrow> string" where
  "embedded_certificate d \<equiv>
     X509Certificate.Value (X509Certificate (X509Data (KeyInfo (KeyDescriptor
       (IDPSSODescriptor d)))))"

section \<open>Fixtures\<close>

text \<open>
  A small instance of the libraries, to run both functions on. Six payloads decode:
  \<^item> \<open>AQ==\<close> to a signed response of \<open>idp-a\<close>, valid from 1000 to 1300;
  \<^item> \<open>Ag==\<close> to the same response without a signature value;
  \<^item> \<open>Aw==\<close> to a response of \<open>idp-evil\<close> whose signature does not verify;
  \<^item> \<open>BA==\<close> to bytes that do not unmarshal;
  \<^item> \<open>BQ==\<close> to a \<open>Response\<close> element with nothing inside;
  \<^item> \<open>Bg==\<close> to a signed \<open>Response\<close> element with no \<open>Assertion\<close> inside.

  None of the struct tags of the document model can make an element required, and
  \<open>xml.Unmarshal\<close> leaves the field of an absent element at its zero value: the last
  two documents unmarshal without an error, into \<open>bare_Response\<close> and into
  \<open>bare_Response\<close> with the signature filled in. Certificate \<open>7\<close> is the one that
  parses, and one location is a URL.
\<close>

definition fixture_response :: "string \<Rightarrow> string \<Rightarrow> nat Response" where
  "fixture_response issuerName signatureValue =
     \<lparr>Response.XMLName =
        \<lparr>Space = ''urn:oasis:names:tc:SAML:2.0:protocol'', Local = ''Response''\<rparr>,
      Signature = \<lparr>SignedInfo = 1, SignatureValue = signatureValue\<rparr>,
      Assertion =
        \<lparr>Assertion.XMLName =
           \<lparr>Space = ''urn:oasis:names:tc:SAML:2.0:assertion'', Local = ''Assertion''\<rparr>,
         Issuer = \<lparr>Issuer.XMLName = zero_Name, Name = issuerName\<rparr>,
         Subject =
           \<lparr>Subject.XMLName = zero_Name,
            NameID = \<lparr>NameID.XMLName = zero_Name, Format = [], Value = ''alice''\<rparr>,
            SubjectConfirmation =
              \<lparr>SubjectConfirmation.XMLName = zero_Name,
               SubjectConfirmationData =
                 \<lparr>SubjectConfirmationData.XMLName = zero_Name, NotOnOrAfter = 1300,
                  Recipient = ''https://sp.example/acs''\<rparr>\<rparr>\<rparr>,
         Conditions =
           \<lparr>Conditions.XMLName = zero_Name, NotBefore = 1000, NotOnOrAfter = 1300\<rparr>,
         AttributeStatement =
           \<lparr>AttributeStatement.XMLName = zero_Name, Attributes = []\<rparr>\<rparr>\<rparr>"

definition bare_Response :: "nat Response" where
  "bare_Response =
     zero_Response
       \<lparr>Response.XMLName :=
          \<lparr>Space = ''urn:oasis:names:tc:SAML:2.0:protocol'', Local = ''Response''\<rparr>\<rparr>"

definition fixture_library :: "(nat, nat, string, string) library" where
  "fixture_library =
     \<lparr>DecodeString = (\<lambda>s.
        if s = ''AQ=='' then ([1], None)
        else if s = ''Ag=='' then ([2], None)
        else if s = ''Aw=='' then ([3], None)
        else if s = ''BA=='' then ([4], None)
        else if s = ''BQ=='' then ([5], None)
        else if s = ''Bg=='' then ([6], None)
        else ([], Some ''illegal base64 data'')),
      Unmarshal = (\<lambda>data.
        if data = [1] then (fixture_response ''idp-a'' ''c2ln'', None)
        else if data = [2] then (fixture_response ''idp-a'' [], None)
        else if data = [3] then (fixture_response ''idp-evil'' ''Zm9y'', None)
        else if data = [5] then (bare_Response, None)
        else if data = [6]
          then (bare_Response\<lparr>Signature := \<lparr>SignedInfo = 1, SignatureValue = ''c2ln''\<rparr>\<rparr>, None)
        else (zero_Response, Some ''EOF'')),
      Signature_Verify = (\<lambda>sg cert data.
        if cert = Some 7 \<and> (data = [1] \<or> data = [6]) \<and> SignatureValue sg = ''c2ln''
        then None
        else Some ''verification error''),
      ParseCertificate = (\<lambda>data.
        if data = [1] then (Some 7, None) else (None, Some ''malformed certificate'')),
      url_Parse = (\<lambda>s.
        if s = ''https://idp.example/sso'' then (Some s, None)
        else (None, Some ''invalid URL''))\<rparr>"


definition fixture_service :: "string \<Rightarrow> string \<Rightarrow> SingleSignOnService" where
  "fixture_service b l = \<lparr>SingleSignOnService.XMLName = zero_Name, Binding = b, Location = l\<rparr>"

definition fixture_metadata :: "string \<Rightarrow> SingleSignOnService list \<Rightarrow> EntityDescriptor" where
  "fixture_metadata certificate services =
     \<lparr>EntityDescriptor.XMLName = zero_Name,
      EntityID = ''idp-a'',
      IDPSSODescriptor =
        \<lparr>IDPSSODescriptor.XMLName = zero_Name,
         KeyDescriptor =
           \<lparr>KeyDescriptor.XMLName = zero_Name,
            KeyInfo =
              \<lparr>KeyInfo.XMLName = zero_Name,
               X509Data =
                 \<lparr>X509Data.XMLName = zero_Name,
                  X509Certificate =
                    \<lparr>X509Certificate.XMLName = zero_Name, Value = certificate\<rparr>\<rparr>\<rparr>\<rparr>,
         SingleSignOnServices = services\<rparr>\<rparr>"

section \<open>Properties of Verify\<close>

subsection \<open>The order of the checks\<close>

text \<open>
  C1. When the payload decodes and unmarshals, its signature value is not empty and
  the signature does not verify, \<open>Verify\<close> returns the zero response with the error
  of the signature verification, whatever issuer, recipient and time are expected: never
  \<open>ErrInvalidIssuer\<close>, \<open>ErrInvalidRecipient\<close> or \<open>ErrAssertionExpired\<close>.
\<close>

theorem Verify_signature_error_first:
  assumes "DecodeString L samlResponse = (data, None)"
    and "Unmarshal L data = (response, None)"
    and "SignatureValue (Signature response) \<noteq> []"
    and "Signature_Verify L (Signature response) cert data = Some err"
  shows "fst (Verify L samlResponse issuer cert recipient now)
           = (zero_Response, Some (LibraryError err))
         \<and> snd (fst (Verify L samlResponse issuer cert recipient now))
           \<notin> {Some ErrInvalidIssuer, Some ErrInvalidRecipient, Some ErrAssertionExpired}"
  using assms by (simp add: Verify_def)

theorem Verify_signature_error_first_witness:
  "fst (Verify fixture_library ''Aw=='' ''idp-a'' (Some 7) ''https://sp.example/other'' 5000)
     = (zero_Response, Some (LibraryError ''verification error''))
   \<and> Issuer.Name (Issuer (Assertion (fixture_response ''idp-evil'' ''Zm9y''))) \<noteq> ''idp-a''"
  using Verify_signature_error_first [of fixture_library "''Aw==''" "[3]"
      "fixture_response ''idp-evil'' ''Zm9y''" "Some 7" "''verification error''"
      "''idp-a''" "''https://sp.example/other''" 5000]
  by (simp add: fixture_library_def fixture_response_def)

subsection \<open>The validity window\<close>

text \<open>
  When signature, issuer and recipient pass, \<open>Verify\<close> accepts exactly the instants
  from \<open>NotBefore\<close> up to and including both \<open>NotOnOrAfter\<close> values.
\<close>

lemma Verify_window:
  assumes "DecodeString L samlResponse = (data, None)"
    and "Unmarshal L data = (response, None)"
    and "SignatureValue (Signature response) \<noteq> []"
    and "Signature_Verify L (Signature response) cert data = None"
    and "Issuer.Name (Issuer (Assertion response)) = issuer"
    and "Recipient (SubjectConfirmationData (SubjectConfirmation
           (Subject (Assertion response)))) = recipient"
  shows "fst (Verify L samlResponse issuer cert recipient now) =
           (if NotBefore (Conditions (Assertion response)) \<le> now
               \<and> now \<le> Conditions.NotOnOrAfter (Conditions (Assertion response))
               \<and> now \<le> SubjectConfirmationData.NotOnOrAfter (SubjectConfirmationData
                     (SubjectConfirmation (Subject (Assertion response))))
            then (response, None)
            else (zero_Response, Some ErrAssertionExpired))"
  using assms by (simp add: Verify_def Before_def After_def Let_def)

text \<open>
  C2. The fixture response is valid from 1000 and carries 1300 in both \<open>NotOnOrAfter\<close>
  attributes. Verified at 1000 it is returned; verified at 1300, the instant of
  \<open>NotOnOrAfter\<close>, it is returned as well, with no error, and the first instant that
  yields \<open>ErrAssertionExpired\<close> is 1301.
\<close>

theorem Verify_accepts_at_NotOnOrAfter:
  "Conditions.NotOnOrAfter (Conditions (Assertion (fixture_response ''idp-a'' ''c2ln''))) = 1300
   \<and> SubjectConfirmationData.NotOnOrAfter (SubjectConfirmationData (SubjectConfirmation
        (Subject (Assertion (fixture_response ''idp-a'' ''c2ln''))))) = 1300
   \<and> fst (Verify fixture_library ''AQ=='' ''idp-a'' (Some 7) ''https://sp.example/acs'' 1000)
       = (fixture_response ''idp-a'' ''c2ln'', None)
   \<and> fst (Verify fixture_library ''AQ=='' ''idp-a'' (Some 7) ''https://sp.example/acs'' 1300)
       = (fixture_response ''idp-a'' ''c2ln'', None)
   \<and> fst (Verify fixture_library ''AQ=='' ''idp-a'' (Some 7) ''https://sp.example/acs'' 1301)
       = (zero_Response, Some ErrAssertionExpired)"
  by (simp add: Verify_def Before_def After_def Let_def fixture_library_def fixture_response_def)

subsection \<open>Unsigned responses\<close>

text \<open>
  C3. When the payload decodes and unmarshals and the signature value of the response
  is empty, \<open>Verify\<close> returns the zero response with \<open>ErrResponseNotSigned\<close>, whatever
  the rest of the document and the expected values are, and makes no call to the
  signature verification: the list of calls is empty, and the result is the same under
  every verification function.
\<close>

theorem Verify_unsigned:
  assumes "DecodeString L samlResponse = (data, None)"
    and "Unmarshal L data = (response, None)"
    and "SignatureValue (Signature response) = []"
  shows "Verify L samlResponse issuer cert recipient now
           = ((zero_Response, Some ErrResponseNotSigned), [])
         \<and> Verify (L\<lparr>Signature_Verify := v\<rparr>) samlResponse issuer cert recipient now
           = ((zero_Response, Some ErrResponseNotSigned), [])"
  using assms by (simp add: Verify_def)

theorem Verify_unsigned_witness:
  "Verify fixture_library ''Ag=='' ''idp-a'' (Some 7) ''https://sp.example/acs'' 1060
     = ((zero_Response, Some ErrResponseNotSigned), [])
   \<and> Verify (fixture_library\<lparr>Signature_Verify := (\<lambda>sg c d. None)\<rparr>) ''Ag=='' ''idp-a'' (Some 7)
        ''https://sp.example/acs'' 1060
     = ((zero_Response, Some ErrResponseNotSigned), [])"
  using Verify_unsigned [of fixture_library "''Ag==''" "[2]" "fixture_response ''idp-a'' []"
      "''idp-a''" "Some 7" "''https://sp.example/acs''" 1060 "\<lambda>sg c d. None"]
  by (simp add: fixture_library_def fixture_response_def)

subsection \<open>What the signature verification is given\<close>

text \<open>
  The verdict of the signature verification that \<open>Verify\<close> acts on is the one for
  the signature of the response, the caller's certificate and the bytes that
  \<open>DecodeString\<close> returned: under any verification function \<open>v\<close>, an error of
  \<open>v\<close> at these three arguments is the result, and without one the result is that
  under the verification function that accepts everything. What \<open>v\<close> says about
  any other bytes has no influence.
\<close>

lemma Verify_verdict_at_data:
  assumes "DecodeString L samlResponse = (data, None)"
    and "Unmarshal L data = (response, None)"
    and "SignatureValue (Signature response) \<noteq> []"
  shows "Verify (L\<lparr>Signature_Verify := v\<rparr>) samlResponse issuer cert recipient now
           = (case v (Signature response) cert data of
                Some err \<Rightarrow>
                  ((zero_Response, Some (LibraryError err)), [(Signature response, cert, data)])
              | None \<Rightarrow>
                  Verify (L\<lparr>Signature_Verify := (\<lambda>sg c d. None)\<rparr>) samlResponse issuer cert
                    recipient now)"
  using assms by (simp add: Verify_def Let_def split: option.split)

text \<open>
  C4. Whenever \<open>Verify\<close> gets as far as the signature (the payload decodes and
  unmarshals, the signature value is not empty), the bytes it hands to the signature
  verification are the very bytes that \<open>DecodeString\<close> returned for the payload:
  \<^item> a verification function that returns an error on exactly these bytes (with the
    signature of the response and the caller's certificate) and accepts all others
    makes \<open>Verify\<close> return that error;
  \<^item> two verification functions that agree on these bytes give the same result,
    however they differ on other bytes, among them any other serialisation of the
    response;
  \<^item> the one call that is made carries these bytes.
\<close>

theorem Verify_passes_decoded_bytes:
  assumes "DecodeString L samlResponse = (data, None)"
    and "Unmarshal L data = (response, None)"
    and "SignatureValue (Signature response) \<noteq> []"
  shows "fst (Verify (L\<lparr>Signature_Verify :=
                  (\<lambda>sg c d. if sg = Signature response \<and> c = cert \<and> d = data
                            then Some err else None)\<rparr>)
                samlResponse issuer cert recipient now)
           = (zero_Response, Some (LibraryError err))
         \<and> (v (Signature response) cert data = v' (Signature response) cert data \<longrightarrow>
              Verify (L\<lparr>Signature_Verify := v\<rparr>) samlResponse issuer cert recipient now
                = Verify (L\<lparr>Signature_Verify := v'\<rparr>) samlResponse issuer cert recipient now)
         \<and> snd (Verify L samlResponse issuer cert recipient now)
              = [(Signature response, cert, data)]"
proof (intro conjI impI)
  show "fst (Verify (L\<lparr>Signature_Verify :=
                  (\<lambda>sg c d. if sg = Signature response \<and> c = cert \<and> d = data
                            then Some err else None)\<rparr>)
                samlResponse issuer cert recipient now)
           = (zero_Response, Some (LibraryError err))"
    by (simp add: Verify_verdict_at_data [OF assms])
next
  assume "v (Signature response) cert data = v' (Signature response) cert data"
  then show "Verify (L\<lparr>Signature_Verify := v\<rparr>) samlResponse issuer cert recipient now
               = Verify (L\<lparr>Signature_Verify := v'\<rparr>) samlResponse issuer cert recipient now"
    by (simp add: Verify_verdict_at_data [OF assms])
next
  show "snd (Verify L samlResponse issuer cert recipient now)
          = [(Signature response, cert, data)]"
    using assms by (simp add: Verify_def Let_def split: option.split)
qed

text \<open>
  On the fixture: the payload \<open>AQ==\<close> decodes to the bytes \<open>[1]\<close>. A verification
  function that rejects only \<open>[1]\<close> makes \<open>Verify\<close> fail with its error, and one
  that accepts only \<open>[1]\<close> gives the result of the one that accepts everything.
\<close>

theorem Verify_passes_decoded_bytes_witness:
  "fst (DecodeString fixture_library ''AQ=='') = [1]
   \<and> fst (Verify (fixture_library\<lparr>Signature_Verify :=
             (\<lambda>sg c d. if sg = \<lparr>SignedInfo = 1, SignatureValue = ''c2ln''\<rparr> \<and> c = Some 7 \<and> d = [1]
                       then Some ''rejected'' else None)\<rparr>)
          ''AQ=='' ''idp-a'' (Some 7) ''https://sp.example/acs'' 1060)
       = (zero_Response, Some (LibraryError ''rejected''))
   \<and> Verify (fixture_library\<lparr>Signature_Verify :=
             (\<lambda>sg c d. if d = [1] then None else Some ''other bytes'')\<rparr>)
          ''AQ=='' ''idp-a'' (Some 7) ''https://sp.example/acs'' 1060
       = Verify (fixture_library\<lparr>Signature_Verify := (\<lambda>sg c d. None)\<rparr>)
          ''AQ=='' ''idp-a'' (Some 7) ''https://sp.example/acs'' 1060
   \<and> snd (Verify fixture_library ''AQ=='' ''idp-a'' (Some 7) ''https://sp.example/acs'' 1060)
       = [(\<lparr>SignedInfo = 1, SignatureValue = ''c2ln''\<rparr>, Some 7, [1])]"
  using Verify_passes_decoded_bytes [where L = fixture_library and samlResponse = "''AQ==''"
      and data = "[1]" and response = "fixture_response ''idp-a'' ''c2ln''"
      and issuer = "''idp-a''" and cert = "Some 7" and recipient = "''https://sp.example/acs''"
      and now = 1060 and err = "''rejected''"
      and v = "\<lambda>sg c d. if d = [1] then None else Some ''other bytes''"
      and v' = "\<lambda>sg c d. None"]
  by (simp add: fixture_library_def fixture_response_def)

subsection \<open>No response beside an error\<close>

text \<open>
  C5. Whenever \<open>Verify\<close> returns an error, the response it returns is the zero
  response.
\<close>

theorem Verify_error_zero_Response:
  assumes "snd (fst (Verify L samlResponse issuer cert recipient now)) \<noteq> None"
  shows "fst (fst (Verify L samlResponse issuer cert recipient now)) = zero_Response"
  using assms
  by (simp add: Verify_def Let_def split: prod.splits option.splits if_splits)

theorem Verify_error_zero_Response_witness:
  "snd (fst (Verify fixture_library ''AQ=='' ''idp-b'' (Some 7) ''https://sp.example/acs'' 1060))
     = Some ErrInvalidIssuer
   \<and> fst (fst (Verify fixture_library ''AQ=='' ''idp-b'' (Some 7) ''https://sp.example/acs'' 1060))
     = zero_Response"
  using Verify_error_zero_Response [of fixture_library "''AQ==''" "''idp-b''" "Some 7"
      "''https://sp.example/acs''" 1060]
  by (simp add: Verify_def Before_def After_def Let_def fixture_library_def fixture_response_def)

subsection \<open>Documents that do not unmarshal, and documents that lack elements\<close>




section \<open>Properties of GetEntityIDCertificateAndRedirectURL\<close>

subsection \<open>The scan of the bindings\<close>

lemma scan_no_redirect:
  "\<forall>s \<in> set ss. Binding s \<noteq> SingleSignOnServiceBindingHTTPRedirect \<Longrightarrow>
     scan_SingleSignOnServices L entityID cert ss = ([], None, None, Some ErrNoRedirectBinding)"
  by (induction ss) simp_all

lemma scan_first_redirect:
  "\<forall>x \<in> set before. Binding x \<noteq> SingleSignOnServiceBindingHTTPRedirect \<Longrightarrow>
   Binding s = SingleSignOnServiceBindingHTTPRedirect \<Longrightarrow>
     scan_SingleSignOnServices L entityID cert (before @ s # after)
       = (entityID, cert, fst (url_Parse L (Location s)),
          map_option LibraryError (snd (url_Parse L (Location s))))"
  by (induction before) (simp_all add: case_prod_beta)

text \<open>
  C6. Let the embedded certificate decode and parse. If no entry of
  \<open>SingleSignOnServices\<close> has the HTTP-Redirect binding, the result is
  \<open>ErrNoRedirectBinding\<close> with empty values. If the list is \<open>before @ s # after\<close>
  with no HTTP-Redirect entry in \<open>before\<close> and \<open>s\<close> an HTTP-Redirect entry, however
  long \<open>before\<close> is and whatever follows in \<open>after\<close>, the result is the entity ID, the
  certificate and what \<open>url.Parse\<close> returns for the location of \<open>s\<close>.
\<close>

theorem GetEntityIDCertificateAndRedirectURL_binding:
  assumes "DecodeString L (embedded_certificate d) = (asn1Data, None)"
    and "ParseCertificate L asn1Data = (cert, None)"
  shows "((\<forall>s \<in> set (SingleSignOnServices (IDPSSODescriptor d)).
             Binding s \<noteq> SingleSignOnServiceBindingHTTPRedirect) \<longrightarrow>
           GetEntityIDCertificateAndRedirectURL L d
             = ([], None, None, Some ErrNoRedirectBinding))
       \<and> (SingleSignOnServices (IDPSSODescriptor d) = before @ s # after
          \<and> (\<forall>x \<in> set before. Binding x \<noteq> SingleSignOnServiceBindingHTTPRedirect)
          \<and> Binding s = SingleSignOnServiceBindingHTTPRedirect \<longrightarrow>
           GetEntityIDCertificateAndRedirectURL L d
             = (EntityID d, cert, fst (url_Parse L (Location s)),
                map_option LibraryError (snd (url_Parse L (Location s)))))"
  using assms
  by (simp add: GetEntityIDCertificateAndRedirectURL_def scan_no_redirect scan_first_redirect)

theorem GetEntityIDCertificateAndRedirectURL_binding_witness:
  "GetEntityIDCertificateAndRedirectURL fixture_library
     (fixture_metadata ''AQ=='' [fixture_service ''urn:oasis:names:tc:SAML:2.0:bindings:HTTP-POST''
        ''https://idp.example/post''])
     = ([], None, None, Some ErrNoRedirectBinding)
   \<and> GetEntityIDCertificateAndRedirectURL fixture_library
     (fixture_metadata ''AQ==''
        ([fixture_service ''urn:oasis:names:tc:SAML:2.0:bindings:HTTP-POST''
            ''https://idp.example/post'']
         @ fixture_service SingleSignOnServiceBindingHTTPRedirect ''https://idp.example/sso''
         # [fixture_service SingleSignOnServiceBindingHTTPRedirect ''https://idp.example/two'']))
     = (''idp-a'', Some 7, Some ''https://idp.example/sso'', None)"
  using GetEntityIDCertificateAndRedirectURL_binding [of fixture_library
      "fixture_metadata ''AQ=='' [fixture_service ''urn:oasis:names:tc:SAML:2.0:bindings:HTTP-POST''
        ''https://idp.example/post'']" "[1]" "Some 7"]
    GetEntityIDCertificateAndRedirectURL_binding [of fixture_library
      "fixture_metadata ''AQ==''
        ([fixture_service ''urn:oasis:names:tc:SAML:2.0:bindings:HTTP-POST''
            ''https://idp.example/post'']
         @ fixture_service SingleSignOnServiceBindingHTTPRedirect ''https://idp.example/sso''
         # [fixture_service SingleSignOnServiceBindingHTTPRedirect ''https://idp.example/two''])"
      "[1]" "Some 7"
      "[fixture_service ''urn:oasis:names:tc:SAML:2.0:bindings:HTTP-POST''
            ''https://idp.example/post'']"
      "fixture_service SingleSignOnServiceBindingHTTPRedirect ''https://idp.example/sso''"
      "[fixture_service SingleSignOnServiceBindingHTTPRedirect ''https://idp.example/two'']"]
  by (simp add: fixture_library_def fixture_metadata_def fixture_service_def
      SingleSignOnServiceBindingHTTPRedirect_def)

subsection \<open>The certificate comes first\<close>

text \<open>
  C8. If the embedded certificate value does not decode, the result is the error of
  \<open>DecodeString\<close>; if it decodes and the bytes do not parse as a certificate, the
  result is the error of \<open>x509.ParseCertificate\<close>. Both hold for every list of
  bindings, so also for one without an HTTP-Redirect entry, and the other three values
  are empty.
\<close>

theorem GetEntityIDCertificateAndRedirectURL_certificate_first:
  "(DecodeString L (embedded_certificate d) = (asn1Data, Some err) \<longrightarrow>
      GetEntityIDCertificateAndRedirectURL L d = ([], None, None, Some (LibraryError err)))
   \<and> (DecodeString L (embedded_certificate d) = (asn1Data, None)
       \<and> ParseCertificate L asn1Data = (cert, Some err) \<longrightarrow>
      GetEntityIDCertificateAndRedirectURL L d = ([], None, None, Some (LibraryError err)))"
  by (simp add: GetEntityIDCertificateAndRedirectURL_def)

theorem GetEntityIDCertificateAndRedirectURL_certificate_first_witness:
  "GetEntityIDCertificateAndRedirectURL fixture_library
     (fixture_metadata ''%'' [fixture_service ''urn:oasis:names:tc:SAML:2.0:bindings:HTTP-POST''
        ''https://idp.example/post''])
     = ([], None, None, Some (LibraryError ''illegal base64 data''))
   \<and> GetEntityIDCertificateAndRedirectURL fixture_library
     (fixture_metadata ''Ag=='' [fixture_service ''urn:oasis:names:tc:SAML:2.0:bindings:HTTP-POST''
        ''https://idp.example/post''])
     = ([], None, None, Some (LibraryError ''malformed certificate''))
   \<and> GetEntityIDCertificateAndRedirectURL fixture_library (fixture_metadata ''Ag=='' [])
     \<noteq> ([], None, None, Some ErrNoRedirectBinding)"
  using GetEntityIDCertificateAndRedirectURL_certificate_first [of fixture_library
      "fixture_metadata ''%'' [fixture_service ''urn:oasis:names:tc:SAML:2.0:bindings:HTTP-POST''
        ''https://idp.example/post'']" "[]" "''illegal base64 data''" None]
    GetEntityIDCertificateAndRedirectURL_certificate_first [of fixture_library
      "fixture_metadata ''Ag=='' [fixture_service ''urn:oasis:names:tc:SAML:2.0:bindings:HTTP-POST''
        ''https://idp.example/post'']" "[2]" "''malformed certificate''" None]
    GetEntityIDCertificateAndRedirectURL_certificate_first [of fixture_library
      "fixture_metadata ''Ag=='' []" "[2]" "''malformed certificate''" None]
  by (simp add: fixture_library_def fixture_metadata_def)

subsection \<open>A location that is not a URL\<close>

text \<open>
  C10. Let the embedded certificate decode and parse, and let \<open>url.Parse\<close> fail on the
  location of the first HTTP-Redirect entry. Then the result carries that error
  together with the entity ID of the descriptor (not empty when the descriptor's is
  not) and the parsed certificate: these two are not replaced by empty values as on
  the other failing paths.
\<close>

theorem GetEntityIDCertificateAndRedirectURL_bad_location:
  assumes "DecodeString L (embedded_certificate d) = (asn1Data, None)"
    and "ParseCertificate L asn1Data = (Some cert, None)"
    and "SingleSignOnServices (IDPSSODescriptor d) = before @ s # after"
    and "\<forall>x \<in> set before. Binding x \<noteq> SingleSignOnServiceBindingHTTPRedirect"
    and "Binding s = SingleSignOnServiceBindingHTTPRedirect"
    and "url_Parse L (Location s) = (location, Some err)"
    and "EntityID d \<noteq> []"
  shows "GetEntityIDCertificateAndRedirectURL L d
           = (EntityID d, Some cert, location, Some (LibraryError err))
         \<and> fst (GetEntityIDCertificateAndRedirectURL L d) \<noteq> []
         \<and> fst (snd (GetEntityIDCertificateAndRedirectURL L d)) \<noteq> None"
  using assms
  by (simp add: GetEntityIDCertificateAndRedirectURL_def scan_first_redirect)

theorem GetEntityIDCertificateAndRedirectURL_bad_location_witness:
  "GetEntityIDCertificateAndRedirectURL fixture_library
     (fixture_metadata ''AQ==''
        ([fixture_service ''urn:oasis:names:tc:SAML:2.0:bindings:HTTP-POST''
            ''https://idp.example/post'']
         @ fixture_service SingleSignOnServiceBindingHTTPRedirect ''::bad''
         # [fixture_service SingleSignOnServiceBindingHTTPRedirect ''https://idp.example/sso'']))
     = (''idp-a'', Some 7, None, Some (LibraryError ''invalid URL''))"
  using GetEntityIDCertificateAndRedirectURL_bad_location [of fixture_library
      "fixture_metadata ''AQ==''
        ([fixture_service ''urn:oasis:names:tc:SAML:2.0:bindings:HTTP-POST''
            ''https://idp.example/post'']
         @ fixture_service SingleSignOnServiceBindingHTTPRedirect ''::bad''
         # [fixture_service SingleSignOnServiceBindingHTTPRedirect ''https://idp.example/sso''])"
      "[1]" 7
      "[fixture_service ''urn:oasis:names:tc:SAML:2.0:bindings:HTTP-POST''
            ''https://idp.example/post'']"
      "fixture_service SingleSignOnServiceBindingHTTPRedirect ''::bad''"
      "[fixture_service SingleSignOnServiceBindingHTTPRedirect ''https://idp.example/sso'']"
      None "''invalid URL''"]
  by (simp add: fixture_library_def fixture_metadata_def fixture_service_def
      SingleSignOnServiceBindingHTTPRedirect_def)

end
